theory Spec2Isabelle
  imports Main "HOL-Library.Char_ord" "HOL-Library.List_Lexorder" "HOL-Library.Multiset"
begin

section \<open>Data model (app/models.py)\<close>

text \<open>
  Amounts are the \<open>Numeric(10, 2)\<close> columns of the models: exact decimals with two
  fraction digits, represented by their number of hundredths (an \<open>int\<close>, of either sign).
  Identifiers, months and years are Python integers.
\<close>

type_synonym amount = int

text \<open>A \<open>datetime.date\<close>: year, month and day, compared as Python compares dates.\<close>

datatype date = Date (date_year: int) (date_month: int) (date_day: int)

definition date_lt :: "date \<Rightarrow> date \<Rightarrow> bool" where
  "date_lt a b =
     (date_year a < date_year b
      \<or> (date_year a = date_year b
          \<and> (date_month a < date_month b
              \<or> (date_month a = date_month b \<and> date_day a < date_day b))))"

definition date_le :: "date \<Rightarrow> date \<Rightarrow> bool" where
  "date_le a b = (a = b \<or> date_lt a b)"

record user =
  u_id :: int
  u_email :: string

record category =
  c_id :: int
  c_user_id :: "int option"
  c_name :: string
  c_type :: string

record transaction =
  tx_id :: int
  tx_user_id :: int
  tx_category_id :: "int option"
  tx_amount :: amount
  tx_type :: string
  tx_description :: "string option"
  tx_transaction_date :: date

record budget =
  b_id :: int
  b_user_id :: int
  b_category_id :: "int option"
  b_month :: int
  b_year :: int
  b_limit_amount :: amount
  b_alert_sent :: bool

text \<open>
  The database as the routes see it: the rows of each table in row order, and the
  sequence that numbers new transactions.
\<close>

record store =
  users :: "user list"
  categories :: "category list"
  transactions :: "transaction list"
  budgets :: "budget list"
  transaction_seq :: int

text \<open>
  What the routes take from the Python runtime: \<open>float(d)\<close> of a decimal \<open>d\<close>,
  \<open>int(s)\<close> of a string and \<open>date.fromisoformat(s)\<close> (\<open>None\<close> where Python raises
  \<open>ValueError\<close>), and \<open>date.today()\<close>. The type \<open>'f\<close> stands for Python's floats.
\<close>

record 'f pylib =
  float_of :: "amount \<Rightarrow> 'f"
  int_of_str :: "string \<Rightarrow> int option"
  fromisoformat :: "string \<Rightarrow> date option"
  today :: date

text \<open>\<open>abort(code, description)\<close> of Flask, and the \<open>ValueError\<close> of the date constructor.\<close>

datatype error = Abort int string | ValueError

section \<open>Dates and the month window\<close>

definition is_leap :: "int \<Rightarrow> bool" where
  "is_leap y = (y mod 4 = 0 \<and> (y mod 100 \<noteq> 0 \<or> y mod 400 = 0))"

definition days_in_month :: "int \<Rightarrow> int \<Rightarrow> int" where
  "days_in_month y m =
     (if m = 2 then (if is_leap y then 29 else 28)
      else if m = 4 \<or> m = 6 \<or> m = 9 \<or> m = 11 then 30 else 31)"

text \<open>
  The constructor \<open>date(year, month, day)\<close>: it raises \<open>ValueError\<close> unless
  \<open>MINYEAR = 1 \<le> year \<le> MAXYEAR = 9999\<close>, \<open>1 \<le> month \<le> 12\<close> and the day exists in that
  month.
\<close>

definition py_date :: "int \<Rightarrow> int \<Rightarrow> int \<Rightarrow> error + date" where
  "py_date y m d =
     (if 1 \<le> y \<and> y \<le> 9999 \<and> 1 \<le> m \<and> m \<le> 12 \<and> 1 \<le> d \<and> d \<le> days_in_month y m
      then Inr (Date y m d) else Inl ValueError)"

definition get_month_bounds :: "int \<Rightarrow> int \<Rightarrow> error + (date \<times> date)" where
  "get_month_bounds year month =
     (case py_date year month 1 of
        Inl e \<Rightarrow> Inl e
      | Inr start \<Rightarrow>
          (case (if month = 12 then py_date (year + 1) 1 1 else py_date year (month + 1) 1) of
             Inl e \<Rightarrow> Inl e
           | Inr end_date \<Rightarrow> Inr (start, end_date)))"

text \<open>The filter \<open>transaction_date >= start\<close>, \<open>transaction_date < end\<close> of the queries.\<close>

definition in_window :: "date \<times> date \<Rightarrow> date \<Rightarrow> bool" where
  "in_window w d = (date_le (fst w) d \<and> date_lt d (snd w))"

text \<open>A date that the constructor accepts.\<close>

definition valid_date :: "date \<Rightarrow> bool" where
  "valid_date d = (py_date (date_year d) (date_month d) (date_day d) = Inr d)"

section \<open>Windowed sums (Ledger Store, Period Aggregator)\<close>

text \<open>Python's truth value of an optional integer: \<open>None\<close> and \<open>0\<close> are false.\<close>

definition truthy :: "int option \<Rightarrow> bool" where
  "truthy v = (case v of None \<Rightarrow> False | Some n \<Rightarrow> n \<noteq> 0)"

text \<open>
  \<open>coalesce(sum(Transaction.amount), 0)\<close> over the filtered rows is the exact decimal sum,
  zero when no row matches; the route then converts it with \<open>float\<close>.
\<close>

definition get_expense_total ::
  "'f pylib \<Rightarrow> transaction list \<Rightarrow> int \<Rightarrow> int \<Rightarrow> int \<Rightarrow> int option \<Rightarrow> error + 'f" where
  "get_expense_total L txs user_id month year category_id =
     (case get_month_bounds year month of
        Inl e \<Rightarrow> Inl e
      | Inr w \<Rightarrow>
          (let query = filter (\<lambda>t. tx_user_id t = user_id \<and> tx_type t = ''expense''
                                   \<and> in_window w (tx_transaction_date t)) txs;
               query' = (if truthy category_id
                         then filter (\<lambda>t. tx_category_id t = category_id) query
                         else query)
           in Inr (float_of L (sum_list (map tx_amount query')))))"

definition get_income_total ::
  "'f pylib \<Rightarrow> transaction list \<Rightarrow> int \<Rightarrow> int \<Rightarrow> int \<Rightarrow> error + 'f" where
  "get_income_total L txs user_id month year =
     (case get_month_bounds year month of
        Inl e \<Rightarrow> Inl e
      | Inr w \<Rightarrow>
          Inr (float_of L (sum_list (map tx_amount
                 (filter (\<lambda>t. tx_user_id t = user_id \<and> tx_type t = ''income''
                              \<and> in_window w (tx_transaction_date t)) txs)))))"

record 'f status =
  spent :: 'f
  remaining :: 'f

definition compute_budget_status ::
  "('f::{minus,linorder}) pylib \<Rightarrow> transaction list \<Rightarrow> budget \<Rightarrow> error + 'f status" where
  "compute_budget_status L txs b =
     (case get_expense_total L txs (b_user_id b) (b_month b) (b_year b) (b_category_id b) of
        Inl e \<Rightarrow> Inl e
      | Inr sp \<Rightarrow> Inr \<lparr>spent = sp, remaining = float_of L (b_limit_amount b) - sp\<rparr>)"

section \<open>Budget Evaluator\<close>

definition get_current_user :: "store \<Rightarrow> error + user" where
  "get_current_user s =
     (case find (\<lambda>u. u_id u = 1) (users s) of
        None \<Rightarrow> Inl (Abort 401 ''Demo user missing'')
      | Some u \<Rightarrow> Inr u)"

definition get_current_user_id :: "store \<Rightarrow> error + int" where
  "get_current_user_id s =
     (case get_current_user s of Inl e \<Rightarrow> Inl e | Inr u \<Rightarrow> Inr (u_id u))"

text \<open>
  The line \<open>send_budget_alert\<close> prints, as its fields: the e-mail of the user, the name of
  the budget's category (found by primary key) or \<open>Overall\<close>, the month and year, the
  amount spent and the limit.
\<close>

record 'f alert =
  al_email :: string
  al_category_name :: string
  al_month :: int
  al_year :: int
  al_spent :: 'f
  al_limit :: 'f

definition send_budget_alert ::
  "'f pylib \<Rightarrow> category list \<Rightarrow> user \<Rightarrow> budget \<Rightarrow> 'f \<Rightarrow> 'f alert" where
  "send_budget_alert L cats u b sp =
     \<lparr>al_email = u_email u,
      al_category_name =
        (case find (\<lambda>c. Some (c_id c) = b_category_id b) cats of
           None \<Rightarrow> ''Overall'' | Some c \<Rightarrow> c_name c),
      al_month = b_month b, al_year = b_year b,
      al_spent = sp, al_limit = float_of L (b_limit_amount b)\<rparr>"

text \<open>
  The loop of \<open>evaluate_budgets_for_month\<close>, run over the budget table in row order: a
  budget outside the scope is not selected by the query and stays as it is; a selected one
  is compared with its limit. The result is the table after the loop and the alerts
  emitted, each paired with the budget it was emitted for (as it was on entry). An
  exception of \<open>compute_budget_status\<close> ends the loop.
\<close>

fun evaluate_loop ::
  "('f::{minus,linorder}) pylib \<Rightarrow> store \<Rightarrow> user \<Rightarrow> int \<Rightarrow> int \<Rightarrow> int \<Rightarrow> budget list
     \<Rightarrow> error + (budget list \<times> (budget \<times> 'f alert) list)" where
  "evaluate_loop L s u user_id month year [] = Inr ([], [])"
| "evaluate_loop L s u user_id month year (b # bs) =
     (if b_user_id b = user_id \<and> b_month b = month \<and> b_year b = year then
        (case compute_budget_status L (transactions s) b of
           Inl e \<Rightarrow> Inl e
         | Inr st \<Rightarrow>
             (let over_limit = (spent st > float_of L (b_limit_amount b));
                  step =
                    (if over_limit \<and> \<not> b_alert_sent b then
                       (b\<lparr>b_alert_sent := True\<rparr>,
                        [(b, send_budget_alert L (categories s) u b (spent st))])
                     else if \<not> over_limit \<and> b_alert_sent b then
                       (b\<lparr>b_alert_sent := False\<rparr>, [])
                     else (b, []))
              in (case evaluate_loop L s u user_id month year bs of
                    Inl e \<Rightarrow> Inl e
                  | Inr (bs', evs) \<Rightarrow> Inr (fst step # bs', snd step @ evs))))
      else
        (case evaluate_loop L s u user_id month year bs of
           Inl e \<Rightarrow> Inl e
         | Inr (bs', evs) \<Rightarrow> Inr (b # bs', evs)))"

definition evaluate_budgets_for_month ::
  "('f::{minus,linorder}) pylib \<Rightarrow> store \<Rightarrow> int \<Rightarrow> int \<Rightarrow> int
     \<Rightarrow> error + (store \<times> (budget \<times> 'f alert) list)" where
  "evaluate_budgets_for_month L s user_id month year =
     (case get_current_user s of
        Inl e \<Rightarrow> Inl e
      | Inr u \<Rightarrow>
          (case evaluate_loop L s u user_id month year (budgets s) of
             Inl e \<Rightarrow> Inl e
           | Inr (bs', evs) \<Rightarrow> Inr (s\<lparr>budgets := bs'\<rparr>, evs)))"

definition evaluate_budgets_for_transaction ::
  "('f::{minus,linorder}) pylib \<Rightarrow> store \<Rightarrow> transaction
     \<Rightarrow> error + (store \<times> (budget \<times> 'f alert) list)" where
  "evaluate_budgets_for_transaction L s t =
     evaluate_budgets_for_month L s (tx_user_id t)
       (date_month (tx_transaction_date t)) (date_year (tx_transaction_date t))"

section \<open>Request payloads\<close>

text \<open>
  The JSON body of a transaction request, a field being \<open>None\<close> when it is absent or
  \<open>null\<close>; a numeric amount is given by its hundredths.
\<close>

record tx_payload =
  p_amount :: "amount option"
  p_type :: "string option"
  p_category_id :: "int option"
  p_description :: "string option"
  p_transaction_date :: "string option"

record tx_data =
  d_amount :: amount
  d_type :: string
  d_category_id :: "int option"
  d_description :: "string option"
  d_transaction_date :: date

definition parse_transaction_payload :: "'f pylib \<Rightarrow> tx_payload option \<Rightarrow> error + tx_data" where
  "parse_transaction_payload L payload =
     (case payload of
        None \<Rightarrow> Inl (Abort 400 ''JSON body required'')
      | Some p \<Rightarrow>
          (case (p_amount p, p_type p) of
             (Some amount, Some ty) \<Rightarrow>
               (if ty \<noteq> ''income'' \<and> ty \<noteq> ''expense''
                then Inl (Abort 400 '''amount' and valid 'type' are required'')
                else
                  (case (case p_transaction_date p of
                           None \<Rightarrow> Inr (today L)
                         | Some str \<Rightarrow>
                             (if str = [] then Inr (today L)
                              else (case fromisoformat L str of
                                      None \<Rightarrow> Inl (Abort 400
                                        ''transaction_date must be ISO format YYYY-MM-DD'')
                                    | Some d \<Rightarrow> Inr d))) of
                     Inl e \<Rightarrow> Inl e
                   | Inr tx_date \<Rightarrow>
                       Inr \<lparr>d_amount = amount, d_type = ty,
                            d_category_id = p_category_id p,
                            d_description = p_description p,
                            d_transaction_date = tx_date\<rparr>))
           | _ \<Rightarrow> Inl (Abort 400 '''amount' and valid 'type' are required'')))"

text \<open>A JSON value given for \<open>month\<close> or \<open>year\<close>: a number, or a string for \<open>int\<close> to read.\<close>

datatype jint = JInt int | JStr string

definition py_int :: "'f pylib \<Rightarrow> jint \<Rightarrow> int option" where
  "py_int L v = (case v of JInt n \<Rightarrow> Some n | JStr str \<Rightarrow> int_of_str L str)"

record budget_payload =
  bp_month :: "jint option"
  bp_year :: "jint option"
  bp_limit_amount :: "amount option"
  bp_category_id :: "int option"

record budget_data =
  bd_month :: int
  bd_year :: int
  bd_limit_amount :: amount
  bd_category_id :: "int option"

definition parse_budget_payload :: "'f pylib \<Rightarrow> budget_payload option \<Rightarrow> error + budget_data" where
  "parse_budget_payload L payload =
     (case payload of
        None \<Rightarrow> Inl (Abort 400 ''JSON body required'')
      | Some p \<Rightarrow>
          (case bp_month p of
             None \<Rightarrow> Inl (Abort 400 '''month' is required'')
           | Some mv \<Rightarrow>
          (case bp_year p of
             None \<Rightarrow> Inl (Abort 400 '''year' is required'')
           | Some yv \<Rightarrow>
          (case bp_limit_amount p of
             None \<Rightarrow> Inl (Abort 400 '''limit_amount' is required'')
           | Some lim \<Rightarrow>
          (case py_int L mv of
             None \<Rightarrow> Inl (Abort 400 '''month' and 'year' must be integers'')
           | Some month \<Rightarrow>
          (case py_int L yv of
             None \<Rightarrow> Inl (Abort 400 '''month' and 'year' must be integers'')
           | Some year \<Rightarrow>
               (if \<not> (1 \<le> month \<and> month \<le> 12)
                then Inl (Abort 400 '''month' must be between 1 and 12'')
                else Inr \<lparr>bd_month = month, bd_year = year, bd_limit_amount = lim,
                          bd_category_id = bp_category_id p\<rparr>)))))))"

section \<open>Mutating routes\<close>

text \<open>
  A route returns the store as its commits leave it, the alerts it emitted, and its
  response or the error that ended it. A commit made before an error stays.
\<close>

type_synonym ('f, 'r) outcome = "store \<times> (budget \<times> 'f alert) list \<times> (error + 'r)"

text \<open>\<open>query.first()\<close> followed by assignments to the row found: the first match is replaced.\<close>

fun update_first :: "('a \<Rightarrow> bool) \<Rightarrow> ('a \<Rightarrow> 'a) \<Rightarrow> 'a list \<Rightarrow> 'a list" where
  "update_first P f [] = []"
| "update_first P f (x # xs) = (if P x then f x # xs else x # update_first P f xs)"


definition update_transaction ::
  "('f::{minus,linorder}) pylib \<Rightarrow> store \<Rightarrow> int \<Rightarrow> tx_payload option
     \<Rightarrow> ('f, transaction) outcome" where
  "update_transaction L s transaction_id payload =
     (case get_current_user_id s of
        Inl e \<Rightarrow> (s, [], Inl e)
      | Inr user_id \<Rightarrow>
          (case find (\<lambda>t. tx_id t = transaction_id \<and> tx_user_id t = user_id)
                  (transactions s) of
             None \<Rightarrow> (s, [], Inl (Abort 404 ''Transaction not found''))
           | Some t \<Rightarrow>
               (case parse_transaction_payload L payload of
                  Inl e \<Rightarrow> (s, [], Inl e)
                | Inr data \<Rightarrow>
                    (let t' = t\<lparr>tx_amount := d_amount data, tx_type := d_type data,
                                 tx_category_id := d_category_id data,
                                 tx_description := d_description data,
                                 tx_transaction_date := d_transaction_date data\<rparr>;
                         s1 = s\<lparr>transactions :=
                                  update_first
                                    (\<lambda>t. tx_id t = transaction_id \<and> tx_user_id t = user_id)
                                    (\<lambda>_. t') (transactions s)\<rparr>
                     in (case evaluate_budgets_for_transaction L s1 t' of
                           Inl e \<Rightarrow> (s1, [], Inl e)
                         | Inr (s2, evs) \<Rightarrow> (s2, evs, Inr t'))))))"

text \<open>
  The response of \<open>update_budget\<close> is the budget as the evaluation left it, with its status.
  The row is read back by its key; it is always there, so the \<open>None\<close> branch of that
  second lookup is never taken (lemma \<open>update_budget_not_found\<close> below).
\<close>

definition update_budget ::
  "('f::{minus,linorder}) pylib \<Rightarrow> store \<Rightarrow> int \<Rightarrow> budget_payload option
     \<Rightarrow> ('f, budget \<times> 'f status) outcome" where
  "update_budget L s budget_id payload =
     (case get_current_user_id s of
        Inl e \<Rightarrow> (s, [], Inl e)
      | Inr user_id \<Rightarrow>
          (case find (\<lambda>b. b_id b = budget_id \<and> b_user_id b = user_id) (budgets s) of
             None \<Rightarrow> (s, [], Inl (Abort 404 ''Budget not found''))
           | Some b \<Rightarrow>
               (case parse_budget_payload L payload of
                  Inl e \<Rightarrow> (s, [], Inl e)
                | Inr data \<Rightarrow>
                    (let b' = b\<lparr>b_month := bd_month data, b_year := bd_year data,
                                 b_limit_amount := bd_limit_amount data,
                                 b_category_id := bd_category_id data\<rparr>;
                         s1 = s\<lparr>budgets :=
                                  update_first
                                    (\<lambda>b. b_id b = budget_id \<and> b_user_id b = user_id)
                                    (\<lambda>_. b') (budgets s)\<rparr>
                     in (case evaluate_budgets_for_month L s1 user_id (b_month b') (b_year b') of
                           Inl e \<Rightarrow> (s1, [], Inl e)
                         | Inr (s2, evs) \<Rightarrow>
                             (case find (\<lambda>b. b_id b = budget_id \<and> b_user_id b = user_id)
                                     (budgets s2) of
                                None \<Rightarrow> (s2, evs, Inl (Abort 404 ''Budget not found''))
                              | Some b2 \<Rightarrow>
                                  (case compute_budget_status L (transactions s2) b2 of
                                     Inl e \<Rightarrow> (s2, evs, Inl e)
                                   | Inr st \<Rightarrow> (s2, evs, Inr (b2, st)))))))))"

section \<open>Summary Reporter\<close>

text \<open>Python's \<open>v or d\<close> for an optional integer \<open>v\<close>.\<close>

definition or_default :: "int option \<Rightarrow> int \<Rightarrow> int" where
  "or_default v d = (case v of None \<Rightarrow> d | Some n \<Rightarrow> if n = 0 then d else n)"

record 'f category_row =
  row_category_id :: int
  row_category_name :: string
  row_type :: string
  row_total :: 'f

record 'f summary =
  sm_month :: int
  sm_year :: int
  sm_total_income :: 'f
  sm_total_expense :: 'f
  sm_net :: 'f
  sm_by_category :: "'f category_row list"
  sm_budgets :: "(budget \<times> 'f status) list"

text \<open>
  The outer join of the user's categories with the transactions of the window, grouped by
  the category's primary key (one group for each category) and ordered by name.
\<close>

definition category_rows ::
  "'f pylib \<Rightarrow> store \<Rightarrow> int \<Rightarrow> date \<times> date \<Rightarrow> 'f category_row list" where
  "category_rows L s user_id w =
     map (\<lambda>c. \<lparr>row_category_id = c_id c, row_category_name = c_name c, row_type = c_type c,
               row_total = float_of L (sum_list (map tx_amount
                 (filter (\<lambda>t. tx_category_id t = Some (c_id c) \<and> tx_user_id t = user_id
                              \<and> in_window w (tx_transaction_date t)) (transactions s))))\<rparr>)
       (sort_key c_name (filter (\<lambda>c. c_user_id c = Some user_id) (categories s)))"

fun status_all ::
  "('f::{minus,linorder}) pylib \<Rightarrow> transaction list \<Rightarrow> budget list
     \<Rightarrow> error + (budget \<times> 'f status) list" where
  "status_all L txs [] = Inr []"
| "status_all L txs (b # bs) =
     (case compute_budget_status L txs b of
        Inl e \<Rightarrow> Inl e
      | Inr st \<Rightarrow>
          (case status_all L txs bs of
             Inl e \<Rightarrow> Inl e
           | Inr rest \<Rightarrow> Inr ((b, st) # rest)))"

text \<open>
  \<open>GET /api/summary/monthly\<close>, with the \<open>month\<close> and \<open>year\<close> query arguments. The result
  is the store after the request and the report or the error.
\<close>

definition monthly_summary ::
  "('f::{minus,linorder}) pylib \<Rightarrow> store \<Rightarrow> int option \<Rightarrow> int option
     \<Rightarrow> store \<times> (error + 'f summary)" where
  "monthly_summary L s month_arg year_arg =
     (case get_current_user_id s of
        Inl e \<Rightarrow> (s, Inl e)
      | Inr user_id \<Rightarrow>
          (let month = or_default month_arg (date_month (today L));
               year = or_default year_arg (date_year (today L))
           in (case get_month_bounds year month of
                 Inl e \<Rightarrow> (s, Inl e)
               | Inr w \<Rightarrow>
               (case get_income_total L (transactions s) user_id month year of
                 Inl e \<Rightarrow> (s, Inl e)
               | Inr total_income \<Rightarrow>
               (case get_expense_total L (transactions s) user_id month year None of
                 Inl e \<Rightarrow> (s, Inl e)
               | Inr total_expense \<Rightarrow>
                   (let in_scope = filter (\<lambda>b. b_user_id b = user_id \<and> b_month b = month
                                                \<and> b_year b = year) (budgets s);
                        ordered = filter (\<lambda>b. b_category_id b = None) in_scope
                                  @ filter (\<lambda>b. b_category_id b \<noteq> None) in_scope
                    in (case status_all L (transactions s) ordered of
                          Inl e \<Rightarrow> (s, Inl e)
                        | Inr budgets_payload \<Rightarrow>
                            (s, Inr \<lparr>sm_month = month, sm_year = year,
                                     sm_total_income = total_income,
                                     sm_total_expense = total_expense,
                                     sm_net = total_income - total_expense,
                                     sm_by_category = category_rows L s user_id w,
                                     sm_budgets = budgets_payload\<rparr>))))))))"

section \<open>The evaluation in closed form\<close>

text \<open>
  What one run of the evaluator over a scope amounts to, stated without the loop: a budget
  is in the scope when it has the scope's owner, month and year; it is over its limit when
  its status can be computed and the amount spent exceeds the limit; the run gives every
  budget of the scope the flag \<open>alert_sent = over_limit\<close> and leaves every other budget as
  it is; it emits one alert for each budget of the scope that is over its limit and whose
  flag was false, in row order. The loop is proved equal to this description below
  (\<open>evaluate_budgets_for_month_closed_form\<close>).
\<close>

definition budget_in_scope :: "int \<Rightarrow> int \<Rightarrow> int \<Rightarrow> budget \<Rightarrow> bool" where
  "budget_in_scope user_id month year b =
     (b_user_id b = user_id \<and> b_month b = month \<and> b_year b = year)"

definition budget_over_limit ::
  "('f::{minus,linorder}) pylib \<Rightarrow> transaction list \<Rightarrow> budget \<Rightarrow> bool" where
  "budget_over_limit L txs b =
     (case compute_budget_status L txs b of
        Inl e \<Rightarrow> False
      | Inr st \<Rightarrow> spent st > float_of L (b_limit_amount b))"

definition evaluated_budgets ::
  "('f::{minus,linorder}) pylib \<Rightarrow> transaction list \<Rightarrow> int \<Rightarrow> int \<Rightarrow> int \<Rightarrow> budget list
     \<Rightarrow> budget list" where
  "evaluated_budgets L txs user_id month year bs =
     map (\<lambda>b. if budget_in_scope user_id month year b
               then b\<lparr>b_alert_sent := budget_over_limit L txs b\<rparr> else b) bs"

definition alerted_budgets ::
  "('f::{minus,linorder}) pylib \<Rightarrow> transaction list \<Rightarrow> int \<Rightarrow> int \<Rightarrow> int \<Rightarrow> budget list
     \<Rightarrow> budget list" where
  "alerted_budgets L txs user_id month year bs =
     filter (\<lambda>b. budget_in_scope user_id month year b \<and> budget_over_limit L txs b
                  \<and> \<not> b_alert_sent b) bs"

definition alert_events ::
  "('f::{minus,linorder}) pylib \<Rightarrow> transaction list \<Rightarrow> category list \<Rightarrow> user \<Rightarrow> budget list
     \<Rightarrow> (budget \<times> 'f alert) list" where
  "alert_events L txs cats u bs =
     concat (map (\<lambda>b. case compute_budget_status L txs b of
                          Inl e \<Rightarrow> []
                        | Inr st \<Rightarrow> [(b, send_budget_alert L cats u b (spent st))]) bs)"

section \<open>Rejected request bodies\<close>


section \<open>Python's conversion of a decimal to a float\<close>








section \<open>Examples\<close>

text \<open>A runtime for evaluating examples: floats stand as hundredths, and one date string parses.\<close>

definition example_lib :: "int pylib" where
  "example_lib =
     \<lparr>float_of = (\<lambda>a. a), int_of_str = (\<lambda>_. None),
      fromisoformat = (\<lambda>str. if str = ''2024-07-01'' then Some (Date 2024 7 1) else None),
      today = Date 2024 6 15\<rparr>"

text \<open>
  An example store: the demo user, two categories, two expenses in June 2024, two budgets
  for June 2024 (one of the category, one overall) and one for July 2024.
\<close>

definition example_store :: store where
  "example_store =
     \<lparr>users = [\<lparr>u_id = 1, u_email = ''demo@example.com''\<rparr>],
      categories = [\<lparr>c_id = 1, c_user_id = Some 1, c_name = ''Food'', c_type = ''expense''\<rparr>,
                    \<lparr>c_id = 2, c_user_id = Some 1, c_name = ''Salary'', c_type = ''income''\<rparr>],
      transactions =
        [\<lparr>tx_id = 1, tx_user_id = 1, tx_category_id = Some 1, tx_amount = 5000,
          tx_type = ''expense'', tx_description = None,
          tx_transaction_date = Date 2024 6 5\<rparr>,
         \<lparr>tx_id = 2, tx_user_id = 1, tx_category_id = Some 1, tx_amount = 6000,
          tx_type = ''expense'', tx_description = None,
          tx_transaction_date = Date 2024 6 10\<rparr>],
      budgets =
        [\<lparr>b_id = 1, b_user_id = 1, b_category_id = Some 1, b_month = 6, b_year = 2024,
          b_limit_amount = 10000, b_alert_sent = False\<rparr>,
         \<lparr>b_id = 2, b_user_id = 1, b_category_id = None, b_month = 6, b_year = 2024,
          b_limit_amount = 11000, b_alert_sent = True\<rparr>,
         \<lparr>b_id = 3, b_user_id = 1, b_category_id = Some 1, b_month = 7, b_year = 2024,
          b_limit_amount = 100, b_alert_sent = True\<rparr>],
      transaction_seq = 3\<rparr>"

text \<open>The example store after one evaluation of June 2024, and the alert of that run.\<close>

definition example_store_evaluated :: store where
  "example_store_evaluated =
     example_store\<lparr>budgets :=
        [\<lparr>b_id = 1, b_user_id = 1, b_category_id = Some 1, b_month = 6, b_year = 2024,
          b_limit_amount = 10000, b_alert_sent = True\<rparr>,
         \<lparr>b_id = 2, b_user_id = 1, b_category_id = None, b_month = 6, b_year = 2024,
          b_limit_amount = 11000, b_alert_sent = False\<rparr>,
         \<lparr>b_id = 3, b_user_id = 1, b_category_id = Some 1, b_month = 7, b_year = 2024,
          b_limit_amount = 100, b_alert_sent = True\<rparr>]\<rparr>"

definition example_alerts :: "(budget \<times> int alert) list" where
  "example_alerts =
     [(\<lparr>b_id = 1, b_user_id = 1, b_category_id = Some 1, b_month = 6, b_year = 2024,
        b_limit_amount = 10000, b_alert_sent = False\<rparr>,
       \<lparr>al_email = ''demo@example.com'', al_category_name = ''Food'', al_month = 6,
        al_year = 2024, al_spent = 11000, al_limit = 10000\<rparr>)]"

text \<open>Example request bodies: a transaction moved to July 2024, a negative amount, a budget moved to July 2024.\<close>

definition example_move_payload :: tx_payload where
  "example_move_payload =
     \<lparr>p_amount = Some 6000, p_type = Some ''expense'', p_category_id = Some 1,
      p_description = None, p_transaction_date = Some ''2024-07-01''\<rparr>"


definition example_budget_payload :: budget_payload where
  "example_budget_payload =
     \<lparr>bp_month = Some (JInt 7), bp_year = Some (JInt 2024), bp_limit_amount = Some 11000,
      bp_category_id = None\<rparr>"

text \<open>
  The example store with every flag as an evaluation of its scope leaves it (June 2024
  and July 2024 both evaluated), the transaction table after the second expense is moved
  to 1 July 2024, and the budget table after the overall budget is moved to July 2024.
\<close>

definition example_store_settled :: store where
  "example_store_settled =
     example_store\<lparr>budgets :=
        [\<lparr>b_id = 1, b_user_id = 1, b_category_id = Some 1, b_month = 6, b_year = 2024,
          b_limit_amount = 10000, b_alert_sent = True\<rparr>,
         \<lparr>b_id = 2, b_user_id = 1, b_category_id = None, b_month = 6, b_year = 2024,
          b_limit_amount = 11000, b_alert_sent = False\<rparr>,
         \<lparr>b_id = 3, b_user_id = 1, b_category_id = Some 1, b_month = 7, b_year = 2024,
          b_limit_amount = 100, b_alert_sent = False\<rparr>]\<rparr>"

definition example_moved_transactions :: "transaction list" where
  "example_moved_transactions =
     [\<lparr>tx_id = 1, tx_user_id = 1, tx_category_id = Some 1, tx_amount = 5000,
       tx_type = ''expense'', tx_description = None,
       tx_transaction_date = Date 2024 6 5\<rparr>,
      \<lparr>tx_id = 2, tx_user_id = 1, tx_category_id = Some 1, tx_amount = 6000,
       tx_type = ''expense'', tx_description = None,
       tx_transaction_date = Date 2024 7 1\<rparr>]"

definition example_moved_budgets :: "budget list" where
  "example_moved_budgets =
     [\<lparr>b_id = 1, b_user_id = 1, b_category_id = Some 1, b_month = 6, b_year = 2024,
       b_limit_amount = 10000, b_alert_sent = True\<rparr>,
      \<lparr>b_id = 2, b_user_id = 1, b_category_id = None, b_month = 7, b_year = 2024,
       b_limit_amount = 11000, b_alert_sent = False\<rparr>,
      \<lparr>b_id = 3, b_user_id = 1, b_category_id = Some 1, b_month = 7, b_year = 2024,
       b_limit_amount = 100, b_alert_sent = True\<rparr>]"






section \<open>Properties of the evaluation loop\<close>

lemma compute_budget_status_alert_sent:
  "compute_budget_status L txs (b\<lparr>b_alert_sent := v\<rparr>) = compute_budget_status L txs b"
  by (simp add: compute_budget_status_def split: sum.splits)


lemma evaluate_loop_again:
  "evaluate_loop L s u uid m y bs = Inr (bs', evs) \<Longrightarrow> transactions s' = transactions s
   \<Longrightarrow> evaluate_loop L s' u' uid m y bs' = Inr (bs', [])"
proof (induction bs arbitrary: bs' evs)
  case Nil
  then show ?case by simp
next
  case (Cons b bs)
  then show ?case
    by (auto split: if_splits sum.splits prod.splits
             simp: Let_def compute_budget_status_alert_sent)
qed


lemma evaluate_loop_events_scope:
  "evaluate_loop L s u uid m y bs = Inr (bs', evs) \<Longrightarrow> e \<in> set evs \<Longrightarrow>
   fst e \<in> set bs \<and> b_user_id (fst e) = uid \<and> b_month (fst e) = m \<and> b_year (fst e) = y
   \<and> \<not> b_alert_sent (fst e)"
proof (induction bs arbitrary: bs' evs)
  case Nil
  then show ?case by simp
next
  case (Cons b bs)
  then show ?case
    by (auto split: if_splits sum.splits prod.splits simp: Let_def)
qed

text \<open>
  The loop fails only where the month window of its scope cannot be built, which is at the
  first budget it selects: no alert and no assignment precedes the failure.
\<close>

lemma evaluate_loop_error:
  "evaluate_loop L s u uid m y bs = Inl e \<Longrightarrow> get_month_bounds y m = Inl e"
proof (induction bs)
  case Nil
  then show ?case by simp
next
  case (Cons b bs)
  then show ?case
    by (auto split: if_splits sum.splits prod.splits
             simp: Let_def compute_budget_status_def get_expense_total_def)
qed

lemma evaluate_loop_total:
  "get_month_bounds y m = Inr w \<Longrightarrow> \<exists>bs' evs. evaluate_loop L s u uid m y bs = Inr (bs', evs)"
  using evaluate_loop_error [of L s u uid m y bs]
  by (cases "evaluate_loop L s u uid m y bs") auto

lemma evaluate_loop_step:
  "evaluate_loop L s u uid m y bs = Inr (bs', evs) \<Longrightarrow> i < length bs \<Longrightarrow>
   b_user_id (bs ! i) = uid \<Longrightarrow> b_month (bs ! i) = m \<Longrightarrow> b_year (bs ! i) = y \<Longrightarrow>
   \<exists>st. compute_budget_status L (transactions s) (bs ! i) = Inr st
      \<and> bs' ! i = (bs ! i)\<lparr>b_alert_sent := (spent st > float_of L (b_limit_amount (bs ! i)))\<rparr>"
proof (induction bs arbitrary: bs' evs i)
  case Nil
  then show ?case by simp
next
  case (Cons b bs)
  then show ?case
    by (cases i) (auto split: if_splits sum.splits prod.splits simp: Let_def)
qed


section \<open>Idempotence of the evaluator\<close>

text \<open>
  C1. Running \<open>evaluate_budgets_for_month\<close> a second time on the store the first run left,
  for the same user, month and year, succeeds, emits no alert and returns that store
  unchanged, so every \<open>alert_sent\<close> flag keeps the value the first run gave it.
\<close>

theorem evaluate_budgets_for_month_idempotent:
  assumes "evaluate_budgets_for_month L s user_id month year = Inr (s1, evs)"
  shows "evaluate_budgets_for_month L s1 user_id month year = Inr (s1, [])"
proof -
  from assms obtain u bs' where u: "get_current_user s = Inr u"
    and loop: "evaluate_loop L s u user_id month year (budgets s) = Inr (bs', evs)"
    and s1: "s1 = s\<lparr>budgets := bs'\<rparr>"
    by (auto simp: evaluate_budgets_for_month_def split: sum.splits prod.splits)
  have u1: "get_current_user s1 = Inr u"
    using u by (simp add: s1 get_current_user_def)
  have "evaluate_loop L s1 u user_id month year bs' = Inr (bs', [])"
    using evaluate_loop_again [OF loop, of s1 u] by (simp add: s1)
  then show ?thesis
    using u1 by (simp add: evaluate_budgets_for_month_def s1)
qed

theorem evaluate_budgets_for_month_idempotent_witness:
  "evaluate_budgets_for_month example_lib example_store 1 6 2024
     = Inr (example_store_evaluated, example_alerts)
   \<and> evaluate_budgets_for_month example_lib example_store_evaluated 1 6 2024
     = Inr (example_store_evaluated, [])"
proof -
  have first: "evaluate_budgets_for_month example_lib example_store 1 6 2024
     = Inr (example_store_evaluated, example_alerts)"
    by code_simp
  from evaluate_budgets_for_month_idempotent [OF first] first show ?thesis
    by simp
qed

section \<open>The over-limit condition and the reset\<close>

lemma compute_budget_status_bounds:
  "compute_budget_status L txs b = Inr st
   \<Longrightarrow> \<exists>w. get_month_bounds (b_year b) (b_month b) = Inr w"
  by (auto simp: compute_budget_status_def get_expense_total_def split: sum.splits)

lemma evaluate_budgets_for_month_returns:
  assumes "get_current_user s = Inr u" and "get_month_bounds year month = Inr w"
  shows "\<exists>bs' evs. evaluate_loop L s u user_id month year (budgets s) = Inr (bs', evs)
           \<and> evaluate_budgets_for_month L s user_id month year = Inr (s\<lparr>budgets := bs'\<rparr>, evs)"
proof -
  from evaluate_loop_total [OF assms(2)] obtain bs' evs
    where "evaluate_loop L s u user_id month year (budgets s) = Inr (bs', evs)" by blast
  then show ?thesis using assms(1) by (simp add: evaluate_budgets_for_month_def)
qed



text \<open>
  C3. For a budget with \<open>alert_sent\<close> true whose recomputed amount spent is at or below
  its limit, the evaluation of the budget's scope returns, resets \<open>alert_sent\<close> of that
  budget to false and changes nothing else in it, and emits no event for it: the only
  events there are are alerts, and none of them is for this budget.
\<close>

theorem evaluate_resets_alert_silently:
  assumes user: "get_current_user s = Inr u"
    and i: "i < length (budgets s)"
    and sent: "b_alert_sent (budgets s ! i)"
    and st: "compute_budget_status L (transactions s) (budgets s ! i) = Inr st"
    and le: "spent st \<le> float_of L (b_limit_amount (budgets s ! i))"
  shows "\<exists>s' evs.
           evaluate_budgets_for_month L s (b_user_id (budgets s ! i))
             (b_month (budgets s ! i)) (b_year (budgets s ! i)) = Inr (s', evs)
           \<and> budgets s' ! i = (budgets s ! i)\<lparr>b_alert_sent := False\<rparr>
           \<and> (\<forall>e \<in> set evs. fst e \<noteq> budgets s ! i)"
proof -
  let ?b = "budgets s ! i"
  from compute_budget_status_bounds [OF st] obtain w
    where w: "get_month_bounds (b_year ?b) (b_month ?b) = Inr w" ..
  from evaluate_budgets_for_month_returns [OF user w, of L "b_user_id ?b"] obtain bs' evs
    where loop: "evaluate_loop L s u (b_user_id ?b) (b_month ?b) (b_year ?b) (budgets s)
                   = Inr (bs', evs)"
      and ev: "evaluate_budgets_for_month L s (b_user_id ?b) (b_month ?b) (b_year ?b)
                   = Inr (s\<lparr>budgets := bs'\<rparr>, evs)"
    by blast
  from evaluate_loop_step [OF loop i] st le
  have flag: "bs' ! i = ?b\<lparr>b_alert_sent := False\<rparr>" by auto
  have "fst e \<noteq> ?b" if "e \<in> set evs" for e
    using evaluate_loop_events_scope [OF loop that] sent by auto
  with ev flag show ?thesis by auto
qed

theorem evaluate_resets_alert_silently_witness:
  "b_alert_sent (budgets example_store ! 2)
   \<and> compute_budget_status example_lib (transactions example_store) (budgets example_store ! 2)
       = Inr \<lparr>spent = 0, remaining = 100\<rparr>
   \<and> float_of example_lib (b_limit_amount (budgets example_store ! 2)) = 100
   \<and> (\<exists>s' evs.
         evaluate_budgets_for_month example_lib example_store
           (b_user_id (budgets example_store ! 2)) (b_month (budgets example_store ! 2))
           (b_year (budgets example_store ! 2)) = Inr (s', evs)
         \<and> budgets s' ! 2 = (budgets example_store ! 2)\<lparr>b_alert_sent := False\<rparr>
         \<and> (\<forall>e \<in> set evs. fst e \<noteq> budgets example_store ! 2))"
proof -
  have user: "get_current_user example_store = Inr \<lparr>u_id = 1, u_email = ''demo@example.com''\<rparr>"
    by code_simp
  have i: "2 < length (budgets example_store)"
    by code_simp
  have sent: "b_alert_sent (budgets example_store ! 2)"
    by code_simp
  have st: "compute_budget_status example_lib (transactions example_store)
              (budgets example_store ! 2) = Inr \<lparr>spent = 0, remaining = 100\<rparr>"
    by code_simp
  have lim: "float_of example_lib (b_limit_amount (budgets example_store ! 2)) = 100"
    by code_simp
  have le: "spent \<lparr>spent = 0, remaining = (100::int)\<rparr>
              \<le> float_of example_lib (b_limit_amount (budgets example_store ! 2))"
    using lim by simp
  from evaluate_resets_alert_silently [OF user i sent st le] sent st lim show ?thesis
    by blast
qed

section \<open>The month window\<close>

lemma days_in_month_ge: "28 \<le> days_in_month y m"
  by (simp add: days_in_month_def)

lemma py_date_first:
  "1 \<le> y \<Longrightarrow> y \<le> 9999 \<Longrightarrow> 1 \<le> m \<Longrightarrow> m \<le> 12 \<Longrightarrow> py_date y m 1 = Inr (Date y m 1)"
  using days_in_month_ge [of y m] by (simp add: py_date_def)

lemma get_month_bounds_value:
  assumes "1 \<le> month" and "month \<le> 12" and "1 \<le> year" and "year \<le> 9999"
    and "\<not> (year = 9999 \<and> month = 12)"
  shows "get_month_bounds year month =
           Inr (Date year month 1,
                if month = 12 then Date (year + 1) 1 1 else Date year (month + 1) 1)"
proof (cases "month = 12")
  case True
  with assms have "py_date (year + 1) 1 1 = Inr (Date (year + 1) 1 1)"
    by (intro py_date_first) auto
  with True assms show ?thesis
    by (simp add: get_month_bounds_def py_date_first)
next
  case False
  with assms have "py_date year (month + 1) 1 = Inr (Date year (month + 1) 1)"
    by (intro py_date_first) auto
  with False assms show ?thesis
    by (simp add: get_month_bounds_def py_date_first)
qed

lemma in_window_month:
  assumes "1 \<le> date_month d" and "date_month d \<le> 12" and "1 \<le> date_day d"
  shows "in_window (Date year month 1,
                    if month = 12 then Date (year + 1) 1 1 else Date year (month + 1) 1) d
         = (date_year d = year \<and> date_month d = month)"
proof (cases d)
  case (Date y m dd)
  with assms show ?thesis
    by (simp add: in_window_def date_le_def date_lt_def) linarith
qed

lemma valid_dateD:
  "valid_date d \<Longrightarrow> 1 \<le> date_month d \<and> date_month d \<le> 12 \<and> 1 \<le> date_day d"
  by (simp add: valid_date_def py_date_def split: if_splits)

text \<open>
  C4, as stated, fails for December of the last year a date can have: the first day of
  December 9999 is a date, and \<open>get_month_bounds\<close> raises \<open>ValueError\<close> for it, since the
  end of the window would be in year 10000.
\<close>

theorem get_month_bounds_last_year_counterexample:
  "py_date 9999 12 1 = Inr (Date 9999 12 1) \<and> get_month_bounds 9999 12 = Inl ValueError"
  by (simp add: get_month_bounds_def py_date_def days_in_month_def)

text \<open>
  C4, amended. For every month from 1 to 12 of a year from 1 to 9999, December 9999
  excepted, \<open>get_month_bounds\<close> returns the first day of the month as start and the first
  day of the following month as end (the first of January of the next year for December).
  The last day of the month is in the window and the first day of the following month is
  not; more generally a date is in the window exactly when it is of that month and year.
\<close>

theorem get_month_bounds_window:
  assumes "1 \<le> month" and "month \<le> 12" and "1 \<le> year" and "year \<le> 9999"
    and "\<not> (year = 9999 \<and> month = 12)"
  shows "\<exists>w. get_month_bounds year month = Inr w
           \<and> fst w = Date year month 1
           \<and> snd w = (if month = 12 then Date (year + 1) 1 1 else Date year (month + 1) 1)
           \<and> in_window w (Date year month (days_in_month year month))
           \<and> \<not> in_window w (snd w)
           \<and> (\<forall>d. valid_date d \<longrightarrow>
                 in_window w d = (date_year d = year \<and> date_month d = month))"
proof -
  let ?w = "(Date year month 1,
             if month = 12 then Date (year + 1) 1 1 else Date year (month + 1) 1)"
  have last: "in_window ?w (Date year month (days_in_month year month))"
    using assms days_in_month_ge [of year month]
    by (subst in_window_month) auto
  have nxt: "\<not> in_window ?w (snd ?w)"
    by (simp add: in_window_def date_lt_def)
  have all: "\<forall>d. valid_date d \<longrightarrow>
                 in_window ?w d = (date_year d = year \<and> date_month d = month)"
    using in_window_month valid_dateD by blast
  from get_month_bounds_value [OF assms] last nxt all show ?thesis
    by (intro exI [of _ ?w]) (simp del: split_paired_All)
qed

theorem get_month_bounds_window_witness:
  "\<exists>w. get_month_bounds 2024 2 = Inr w
      \<and> fst w = Date 2024 2 1 \<and> snd w = Date 2024 3 1
      \<and> in_window w (Date 2024 2 29) \<and> \<not> in_window w (Date 2024 3 1)"
  using get_month_bounds_window [of 2 2024]
  by (auto simp: days_in_month_def is_leap_def)

section \<open>Re-evaluation after an update\<close>

lemma update_first_length: "length (update_first P f xs) = length xs"
  by (induction xs) auto

lemma update_first_nth:
  "i < length xs \<Longrightarrow> \<not> P (xs ! i) \<Longrightarrow> update_first P f xs ! i = xs ! i"
proof (induction xs arbitrary: i)
  case Nil
  then show ?case by simp
next
  case (Cons x xs)
  then show ?case by (cases i) auto
qed

lemma update_first_find:
  "find P xs = Some x \<Longrightarrow> f x \<in> set (update_first P f xs)"
  by (induction xs) (auto split: if_splits)

lemma find_SomeD: "find P xs = Some x \<Longrightarrow> P x \<and> x \<in> set xs"
  by (induction xs) (auto split: if_splits)


lemma update_first_find_Some:
  "find P xs = Some x \<Longrightarrow> P y \<Longrightarrow> find P (update_first P (\<lambda>_. y) xs) = Some y"
  by (induction xs) (auto split: if_splits)

text \<open>The loop of the evaluator is its closed form.\<close>

lemma evaluate_loop_out_of_scope:
  "\<not> budget_in_scope uid m y b \<Longrightarrow>
   evaluate_loop L s u uid m y (b # bs) =
     (case evaluate_loop L s u uid m y bs of
        Inl e \<Rightarrow> Inl e
      | Inr (bs', evs) \<Rightarrow> Inr (b # bs', evs))"
  by (auto simp: budget_in_scope_def)

lemma evaluate_loop_in_scope:
  "budget_in_scope uid m y b \<Longrightarrow> compute_budget_status L (transactions s) b = Inr st \<Longrightarrow>
   evaluate_loop L s u uid m y (b # bs) =
     (case evaluate_loop L s u uid m y bs of
        Inl e \<Rightarrow> Inl e
      | Inr (bs', evs) \<Rightarrow>
          Inr (b\<lparr>b_alert_sent := (spent st > float_of L (b_limit_amount b))\<rparr> # bs',
               (if spent st > float_of L (b_limit_amount b) \<and> \<not> b_alert_sent b
                then [(b, send_budget_alert L (categories s) u b (spent st))] else []) @ evs))"
  by (cases "b_alert_sent b") (auto simp: budget_in_scope_def Let_def split: sum.splits)

lemma evaluate_loop_in_scope_error:
  "budget_in_scope uid m y b \<Longrightarrow> compute_budget_status L (transactions s) b = Inl e \<Longrightarrow>
   evaluate_loop L s u uid m y (b # bs) = Inl e"
  by (simp add: budget_in_scope_def)

lemma evaluate_loop_closed_form:
  assumes "get_month_bounds y m = Inr w"
  shows "evaluate_loop L s u uid m y bs
           = Inr (evaluated_budgets L (transactions s) uid m y bs,
                  alert_events L (transactions s) (categories s) u
                    (alerted_budgets L (transactions s) uid m y bs))"
proof (induction bs)
  case Nil
  then show ?case
    by (simp add: evaluated_budgets_def alerted_budgets_def alert_events_def)
next
  case (Cons b bs)
  show ?case
  proof (cases "budget_in_scope uid m y b")
    case False
    then show ?thesis
      using Cons
      by (simp add: evaluate_loop_out_of_scope evaluated_budgets_def alerted_budgets_def
                    alert_events_def del: evaluate_loop.simps)
  next
    case True
    then obtain st where st: "compute_budget_status L (transactions s) b = Inr st"
      using assms
      by (auto simp: compute_budget_status_def get_expense_total_def budget_in_scope_def Let_def)
    show ?thesis
      using True st Cons
      by (simp add: evaluate_loop_in_scope [OF True st] evaluated_budgets_def
                    alerted_budgets_def alert_events_def budget_over_limit_def
               del: evaluate_loop.simps)
  qed
qed

lemma evaluate_loop_no_scope:
  assumes "\<forall>b \<in> set bs. \<not> budget_in_scope uid m y b"
  shows "evaluate_loop L s u uid m y bs = Inr (bs, [])"
  using assms
  by (induction bs) (simp_all add: evaluate_loop_out_of_scope del: evaluate_loop.simps(2))

lemma evaluate_loop_fails:
  assumes "get_month_bounds y m = Inl e" and "\<exists>b \<in> set bs. budget_in_scope uid m y b"
  shows "evaluate_loop L s u uid m y bs = Inl e"
  using assms(2)
proof (induction bs)
  case Nil
  then show ?case by simp
next
  case (Cons b bs)
  show ?case
  proof (cases "budget_in_scope uid m y b")
    case True
    then have "compute_budget_status L (transactions s) b = Inl e"
      using assms(1)
      by (simp add: compute_budget_status_def get_expense_total_def budget_in_scope_def)
    with True show ?thesis by (simp add: evaluate_loop_in_scope_error del: evaluate_loop.simps)
  next
    case False
    with Cons.prems have "\<exists>b \<in> set bs. budget_in_scope uid m y b" by auto
    with Cons.IH have "evaluate_loop L s u uid m y bs = Inl e" by simp
    with False show ?thesis
      by (simp add: evaluate_loop_out_of_scope del: evaluate_loop.simps)
  qed
qed

lemma evaluate_budgets_for_month_closed_form:
  assumes "get_current_user s = Inr u"
  shows "evaluate_budgets_for_month L s uid m y =
     (case get_month_bounds y m of
        Inl e \<Rightarrow>
          if \<exists>b \<in> set (budgets s). budget_in_scope uid m y b then Inl e
          else Inr (s, [])
      | Inr w \<Rightarrow>
          Inr (s\<lparr>budgets := evaluated_budgets L (transactions s) uid m y (budgets s)\<rparr>,
               alert_events L (transactions s) (categories s) u
                 (alerted_budgets L (transactions s) uid m y (budgets s))))"
proof (cases "get_month_bounds y m")
  case (Inr w)
  then show ?thesis
    using assms evaluate_loop_closed_form [OF Inr, of L s u uid "budgets s"]
    by (simp add: evaluate_budgets_for_month_def)
next
  case (Inl e)
  show ?thesis
  proof (cases "\<exists>b \<in> set (budgets s). budget_in_scope uid m y b")
    case True
    then show ?thesis
      using assms Inl evaluate_loop_fails [OF Inl True, of L s u]
      by (simp add: evaluate_budgets_for_month_def)
  next
    case False
    then have "evaluate_loop L s u uid m y (budgets s) = Inr (budgets s, [])"
      using evaluate_loop_no_scope [of "budgets s" uid m y L s u] by simp
    with False assms Inl show ?thesis
      by (simp add: evaluate_budgets_for_month_def)
  qed
qed


lemma evaluated_budgets_nth:
  "i < length bs \<Longrightarrow>
   evaluated_budgets L txs uid m y bs ! i =
     (if budget_in_scope uid m y (bs ! i)
      then (bs ! i)\<lparr>b_alert_sent := budget_over_limit L txs (bs ! i)\<rparr> else bs ! i)"
  by (simp add: evaluated_budgets_def)

lemma alert_events_scope:
  "e \<in> set (alert_events L txs' cats u (alerted_budgets L txs uid m y bs))
   \<Longrightarrow> budget_in_scope uid m y (fst e)"
  by (auto simp: alert_events_def alerted_budgets_def split: sum.splits)

lemma evaluate_or_keep:
  assumes u: "get_current_user s1 = Inr u"
    and out: "(s', evs) = (case evaluate_budgets_for_month L s1 uid m y of
                             Inl e \<Rightarrow> (s1, [])
                           | Inr (s2, evs2) \<Rightarrow> (s2, evs2))"
  shows "transactions s' = transactions s1"
    and "categories s' = categories s1"
    and "length (budgets s') = length (budgets s1)"
    and "\<And>i. i < length (budgets s1) \<Longrightarrow> \<not> budget_in_scope uid m y (budgets s1 ! i)
           \<Longrightarrow> budgets s' ! i = budgets s1 ! i"
    and "\<And>e. e \<in> set evs \<Longrightarrow> budget_in_scope uid m y (fst e)"
    and "\<And>w. get_month_bounds y m = Inr w \<Longrightarrow>
           budgets s' = evaluated_budgets L (transactions s1) uid m y (budgets s1)
           \<and> evs = alert_events L (transactions s1) (categories s1) u
                     (alerted_budgets L (transactions s1) uid m y (budgets s1))"
    and "\<And>e. get_month_bounds y m = Inl e \<Longrightarrow> budgets s' = budgets s1 \<and> evs = []"
proof -
  note cf = evaluate_budgets_for_month_closed_form [OF u, of L uid m y]
  have cases: "(s' = s1 \<and> evs = [])
      \<or> (\<exists>w. get_month_bounds y m = Inr w
              \<and> s' = s1\<lparr>budgets := evaluated_budgets L (transactions s1) uid m y (budgets s1)\<rparr>
              \<and> evs = alert_events L (transactions s1) (categories s1) u
                        (alerted_budgets L (transactions s1) uid m y (budgets s1)))"
    using out cf by (cases "get_month_bounds y m") (auto split: if_splits)
  show "transactions s' = transactions s1" using cases by auto
  show "categories s' = categories s1" using cases by auto
  show "length (budgets s') = length (budgets s1)"
    using cases by (auto simp: evaluated_budgets_def)
  show "budgets s' ! i = budgets s1 ! i"
    if "i < length (budgets s1)" "\<not> budget_in_scope uid m y (budgets s1 ! i)" for i
    using cases that by (auto simp: evaluated_budgets_nth)
  show "budget_in_scope uid m y (fst e)" if "e \<in> set evs" for e
    using cases that by (auto dest: alert_events_scope)
  show "budgets s' = evaluated_budgets L (transactions s1) uid m y (budgets s1)
           \<and> evs = alert_events L (transactions s1) (categories s1) u
                     (alerted_budgets L (transactions s1) uid m y (budgets s1))"
    if "get_month_bounds y m = Inr w" for w
    using out cf that by simp
  show "budgets s' = budgets s1 \<and> evs = []" if "get_month_bounds y m = Inl e" for e
    using out cf that by (auto split: if_splits)
qed

text \<open>
  C5. When \<open>update_transaction\<close> moves a transaction to a date of another month or year,
  the scope of the new date is evaluated and no other. The transaction table is the old
  one with the row replaced. The budget table keeps its length; every budget of the old
  scope (the owner with the month and year of the old date) is exactly as it was,
  \<open>alert_sent\<close> included, and so is every budget outside the new scope; every alert
  emitted is for a budget of the new scope. Where the month window of the new date
  exists, the route returns the updated transaction, the budget table is the one the
  evaluation of the new scope gives over the updated transactions (each budget of the new
  scope gets \<open>alert_sent = over_limit\<close>), and the alerts are those of that evaluation.
  Where the window cannot be built, the budget table is unchanged and no alert is
  emitted; the route then raises if the new scope has a budget and returns the updated
  transaction if it has none.
\<close>

theorem update_transaction_evaluates_new_scope_only:
  assumes upd: "update_transaction L s transaction_id payload = (s', evs, r)"
    and user: "get_current_user s = Inr u"
    and uid: "get_current_user_id s = Inr user_id"
    and found: "find (\<lambda>t. tx_id t = transaction_id \<and> tx_user_id t = user_id) (transactions s)
                  = Some t"
    and parsed: "parse_transaction_payload L payload = Inr data"
    and moved: "date_month (d_transaction_date data) \<noteq> date_month (tx_transaction_date t)
                \<or> date_year (d_transaction_date data) \<noteq> date_year (tx_transaction_date t)"
    and t': "t' = t\<lparr>tx_amount := d_amount data, tx_type := d_type data,
                     tx_category_id := d_category_id data,
                     tx_description := d_description data,
                     tx_transaction_date := d_transaction_date data\<rparr>"
  shows "transactions s'
           = update_first (\<lambda>t. tx_id t = transaction_id \<and> tx_user_id t = user_id)
               (\<lambda>_. t') (transactions s)
         \<and> length (budgets s') = length (budgets s)
         \<and> (\<forall>i < length (budgets s).
               b_user_id (budgets s ! i) = user_id
               \<and> b_month (budgets s ! i) = date_month (tx_transaction_date t)
               \<and> b_year (budgets s ! i) = date_year (tx_transaction_date t)
               \<longrightarrow> budgets s' ! i = budgets s ! i)
         \<and> (\<forall>i < length (budgets s).
               \<not> budget_in_scope user_id (date_month (d_transaction_date data))
                    (date_year (d_transaction_date data)) (budgets s ! i)
               \<longrightarrow> budgets s' ! i = budgets s ! i)
         \<and> (\<forall>e \<in> set evs.
               b_user_id (fst e) = user_id
               \<and> b_month (fst e) = date_month (d_transaction_date data)
               \<and> b_year (fst e) = date_year (d_transaction_date data))
         \<and> (case get_month_bounds (date_year (d_transaction_date data))
                    (date_month (d_transaction_date data)) of
              Inr w \<Rightarrow>
                budgets s'
                  = evaluated_budgets L (transactions s') user_id
                      (date_month (d_transaction_date data))
                      (date_year (d_transaction_date data)) (budgets s)
                \<and> evs
                  = alert_events L (transactions s') (categories s) u
                      (alerted_budgets L (transactions s') user_id
                         (date_month (d_transaction_date data))
                         (date_year (d_transaction_date data)) (budgets s))
                \<and> r = Inr t'
            | Inl e \<Rightarrow>
                budgets s' = budgets s \<and> evs = []
                \<and> r = (if \<exists>b \<in> set (budgets s).
                             budget_in_scope user_id (date_month (d_transaction_date data))
                               (date_year (d_transaction_date data)) b
                       then Inl e else Inr t'))"
proof -
  let ?nm = "date_month (d_transaction_date data)"
  let ?ny = "date_year (d_transaction_date data)"
  define s1 where "s1 = s\<lparr>transactions :=
                            update_first
                              (\<lambda>t. tx_id t = transaction_id \<and> tx_user_id t = user_id)
                              (\<lambda>_. t') (transactions s)\<rparr>"
  have owner: "tx_user_id t' = user_id"
    using find_SomeD [OF found] by (simp add: t')
  have date': "tx_transaction_date t' = d_transaction_date data"
    by (simp add: t')
  have b1: "budgets s1 = budgets s" by (simp add: s1_def)
  have c1: "categories s1 = categories s" by (simp add: s1_def)
  have u1: "get_current_user s1 = Inr u"
    using user by (simp add: s1_def get_current_user_def)
  have route: "(s', evs, r) =
      (case evaluate_budgets_for_month L s1 user_id ?nm ?ny of
         Inl e \<Rightarrow> (s1, [], Inl e)
       | Inr (s2, evs2) \<Rightarrow> (s2, evs2, Inr t'))"
    using upd uid found parsed owner date'
    by (auto simp: update_transaction_def Let_def t' [symmetric] s1_def
                   evaluate_budgets_for_transaction_def
             split: sum.splits)
  have out: "(s', evs) =
      (case evaluate_budgets_for_month L s1 user_id ?nm ?ny of
         Inl e \<Rightarrow> (s1, [])
       | Inr (s2, evs2) \<Rightarrow> (s2, evs2))"
    using route by (auto split: sum.splits)
  have resp: "r = (case evaluate_budgets_for_month L s1 user_id ?nm ?ny of
                     Inl e \<Rightarrow> Inl e | Inr res \<Rightarrow> Inr t')"
    using route by (auto split: sum.splits)
  note ek = evaluate_or_keep [OF u1 out]
  note cf = evaluate_budgets_for_month_closed_form [OF u1, of L user_id ?nm ?ny]
  have txs: "transactions s'
           = update_first (\<lambda>t. tx_id t = transaction_id \<and> tx_user_id t = user_id)
               (\<lambda>_. t') (transactions s)"
    using ek(1) by (simp add: s1_def)
  have len: "length (budgets s') = length (budgets s)"
    using ek(3) by (simp add: b1)
  have new: "\<forall>i < length (budgets s).
               \<not> budget_in_scope user_id ?nm ?ny (budgets s ! i)
               \<longrightarrow> budgets s' ! i = budgets s ! i"
    using ek(4) by (simp add: b1)
  have old: "\<forall>i < length (budgets s).
               b_user_id (budgets s ! i) = user_id
               \<and> b_month (budgets s ! i) = date_month (tx_transaction_date t)
               \<and> b_year (budgets s ! i) = date_year (tx_transaction_date t)
               \<longrightarrow> budgets s' ! i = budgets s ! i"
    using new moved by (auto simp: budget_in_scope_def)
  have scope: "\<forall>e \<in> set evs.
               b_user_id (fst e) = user_id \<and> b_month (fst e) = ?nm \<and> b_year (fst e) = ?ny"
    using ek(5) by (simp add: budget_in_scope_def)
  have closed: "case get_month_bounds ?ny ?nm of
              Inr w \<Rightarrow>
                budgets s' = evaluated_budgets L (transactions s') user_id ?nm ?ny (budgets s)
                \<and> evs = alert_events L (transactions s') (categories s) u
                          (alerted_budgets L (transactions s') user_id ?nm ?ny (budgets s))
                \<and> r = Inr t'
            | Inl e \<Rightarrow>
                budgets s' = budgets s \<and> evs = []
                \<and> r = (if \<exists>b \<in> set (budgets s). budget_in_scope user_id ?nm ?ny b
                       then Inl e else Inr t')"
  proof (cases "get_month_bounds ?ny ?nm")
    case (Inr w)
    from ek(6) [OF Inr] resp cf Inr show ?thesis
      by (simp add: ek(1) b1 c1)
  next
    case (Inl e)
    from ek(7) [OF Inl] resp cf Inl show ?thesis
      by (simp add: b1)
  qed
  show ?thesis
    by (intro conjI txs len old new scope closed)
qed

theorem update_transaction_evaluates_new_scope_only_witness:
  "map tx_transaction_date (transactions (fst
      (update_transaction example_lib example_store_settled 2 (Some example_move_payload))))
     = [Date 2024 6 5, Date 2024 7 1]
   \<and> map b_alert_sent (budgets example_store_settled) = [True, False, False]
   \<and> map b_alert_sent (budgets (fst
      (update_transaction example_lib example_store_settled 2 (Some example_move_payload))))
     = [True, False, True]
   \<and> budgets (fst
      (update_transaction example_lib example_store_settled 2 (Some example_move_payload))) ! 0
     = budgets example_store_settled ! 0
   \<and> \<not> budget_over_limit example_lib
        (transactions (fst
          (update_transaction example_lib example_store_settled 2 (Some example_move_payload))))
        (budgets example_store_settled ! 0)
   \<and> map (b_id \<circ> fst) (fst (snd
      (update_transaction example_lib example_store_settled 2 (Some example_move_payload))))
     = [3]
   \<and> \<not> isl (snd (snd
      (update_transaction example_lib example_store_settled 2 (Some example_move_payload))))"
proof -
  obtain s' evs r where upd:
    "update_transaction example_lib example_store_settled 2 (Some example_move_payload)
       = (s', evs, r)"
    by (rule prod_cases3)
  have user: "get_current_user example_store_settled
                = Inr \<lparr>u_id = 1, u_email = ''demo@example.com''\<rparr>"
    by code_simp
  have uid: "get_current_user_id example_store_settled = Inr 1"
    by code_simp
  have found: "find (\<lambda>t. tx_id t = 2 \<and> tx_user_id t = 1) (transactions example_store_settled)
                 = Some (transactions example_store_settled ! 1)"
    by code_simp
  have parsed: "parse_transaction_payload example_lib (Some example_move_payload)
      = Inr \<lparr>d_amount = 6000, d_type = ''expense'', d_category_id = Some 1,
             d_description = None, d_transaction_date = Date 2024 7 1\<rparr>"
    by code_simp
  have old: "date_month (tx_transaction_date (transactions example_store_settled ! 1)) = 6"
    "date_year (tx_transaction_date (transactions example_store_settled ! 1)) = 2024"
    by code_simp+
  have moved: "date_month (d_transaction_date \<lparr>d_amount = 6000, d_type = ''expense'',
                    d_category_id = Some 1, d_description = None,
                    d_transaction_date = Date 2024 7 1\<rparr>)
                 \<noteq> date_month (tx_transaction_date (transactions example_store_settled ! 1))
               \<or> date_year (d_transaction_date \<lparr>d_amount = 6000, d_type = ''expense'',
                    d_category_id = Some 1, d_description = None,
                    d_transaction_date = Date 2024 7 1\<rparr>)
                 \<noteq> date_year (tx_transaction_date (transactions example_store_settled ! 1))"
    using old by simp
  have bounds: "get_month_bounds 2024 7 = Inr (Date 2024 7 1, Date 2024 8 1)"
    by code_simp
  have moved_row: "(transactions example_store_settled ! 1)
        \<lparr>tx_amount := 6000, tx_type := ''expense'', tx_category_id := Some 1,
         tx_description := None, tx_transaction_date := Date 2024 7 1\<rparr>
      = \<lparr>tx_id = 2, tx_user_id = 1, tx_category_id = Some 1, tx_amount = 6000,
         tx_type = ''expense'', tx_description = None,
         tx_transaction_date = Date 2024 7 1\<rparr>"
    by code_simp
  have table: "update_first (\<lambda>t. tx_id t = 2 \<and> tx_user_id t = 1)
        (\<lambda>_. \<lparr>tx_id = 2, tx_user_id = 1, tx_category_id = Some 1, tx_amount = 6000,
               tx_type = ''expense'', tx_description = None,
               tx_transaction_date = Date 2024 7 1\<rparr>)
        (transactions example_store_settled)
      = example_moved_transactions"
    by code_simp
  have dates: "map tx_transaction_date example_moved_transactions
                 = [Date 2024 6 5, Date 2024 7 1]"
    by code_simp
  have flags0: "map b_alert_sent (budgets example_store_settled) = [True, False, False]"
    by code_simp
  have flags: "map b_alert_sent
        (evaluated_budgets example_lib example_moved_transactions 1 7 2024
           (budgets example_store_settled))
      = [True, False, True]"
    by code_simp
  have first: "evaluated_budgets example_lib example_moved_transactions 1 7 2024
           (budgets example_store_settled) ! 0
      = budgets example_store_settled ! 0"
    by code_simp
  have stale: "\<not> budget_over_limit example_lib example_moved_transactions
                   (budgets example_store_settled ! 0)"
    by code_simp
  have alerts: "map (b_id \<circ> fst)
        (alert_events example_lib example_moved_transactions
           (categories example_store_settled)
           \<lparr>u_id = 1, u_email = ''demo@example.com''\<rparr>
           (alerted_budgets example_lib example_moved_transactions 1 7 2024
              (budgets example_store_settled)))
      = [3]"
    by code_simp
  note th = update_transaction_evaluates_new_scope_only
              [OF upd user uid found parsed moved refl]
  from th have txs: "transactions s' = example_moved_transactions"
    using moved_row table by simp
  from th have closed:
    "budgets s' = evaluated_budgets example_lib (transactions s') 1 7 2024
                    (budgets example_store_settled)
     \<and> evs = alert_events example_lib (transactions s') (categories example_store_settled)
               \<lparr>u_id = 1, u_email = ''demo@example.com''\<rparr>
               (alerted_budgets example_lib (transactions s') 1 7 2024
                  (budgets example_store_settled))
     \<and> \<not> isl r"
    using bounds by simp
  show ?thesis
    using upd txs closed dates flags0 flags first stale alerts by simp
qed

lemma find_map_same:
  "(\<And>x. P (g x) = P x) \<Longrightarrow> find P (map g xs) = map_option g (find P xs)"
  by (induction xs) auto

lemma evaluated_budgets_find:
  "find (\<lambda>b. b_id b = k \<and> b_user_id b = v) (evaluated_budgets L txs uid m y bs)
     = map_option (\<lambda>b. if budget_in_scope uid m y b
                        then b\<lparr>b_alert_sent := budget_over_limit L txs b\<rparr> else b)
         (find (\<lambda>b. b_id b = k \<and> b_user_id b = v) bs)"
  unfolding evaluated_budgets_def
  by (rule find_map_same) simp

text \<open>
  C10. When \<open>update_budget\<close> changes the month or the year of a budget, the scope of the
  new month and year is evaluated and no other. The transaction table is unchanged. The
  budget table keeps its length; every other budget of the old scope (the owner with the
  old month and year) is exactly as it was, \<open>alert_sent\<close> included, and so is every budget
  outside the new scope other than the one updated; every alert emitted is for a budget
  of the new scope. Where the window of the new month exists, the budget table is the one
  the evaluation of the new scope gives on the table with the row replaced (each budget
  of the new scope, the updated one included, gets \<open>alert_sent = over_limit\<close>), the alerts
  are those of that evaluation, and the response is the updated budget with the flag the
  evaluation gave it and its status. Where the window cannot be built, the row is
  replaced, nothing is evaluated, no alert is emitted and the route raises.
\<close>

theorem update_budget_evaluates_new_scope_only:
  assumes upd: "update_budget L s budget_id payload = (s', evs, r)"
    and user: "get_current_user s = Inr u"
    and uid: "get_current_user_id s = Inr user_id"
    and found: "find (\<lambda>b. b_id b = budget_id \<and> b_user_id b = user_id) (budgets s) = Some b"
    and parsed: "parse_budget_payload L payload = Inr data"
    and moved: "bd_month data \<noteq> b_month b \<or> bd_year data \<noteq> b_year b"
    and b': "b' = b\<lparr>b_month := bd_month data, b_year := bd_year data,
                     b_limit_amount := bd_limit_amount data,
                     b_category_id := bd_category_id data\<rparr>"
  shows "transactions s' = transactions s
         \<and> length (budgets s') = length (budgets s)
         \<and> (\<forall>i < length (budgets s).
               b_id (budgets s ! i) \<noteq> budget_id
               \<and> b_user_id (budgets s ! i) = user_id
               \<and> b_month (budgets s ! i) = b_month b
               \<and> b_year (budgets s ! i) = b_year b
               \<longrightarrow> budgets s' ! i = budgets s ! i)
         \<and> (\<forall>i < length (budgets s).
               \<not> (b_id (budgets s ! i) = budget_id \<and> b_user_id (budgets s ! i) = user_id)
               \<and> \<not> budget_in_scope user_id (bd_month data) (bd_year data) (budgets s ! i)
               \<longrightarrow> budgets s' ! i = budgets s ! i)
         \<and> (\<forall>e \<in> set evs.
               b_user_id (fst e) = user_id
               \<and> b_month (fst e) = bd_month data
               \<and> b_year (fst e) = bd_year data)
         \<and> (case get_month_bounds (bd_year data) (bd_month data) of
              Inr w \<Rightarrow>
                budgets s'
                  = evaluated_budgets L (transactions s) user_id (bd_month data) (bd_year data)
                      (update_first (\<lambda>b. b_id b = budget_id \<and> b_user_id b = user_id)
                         (\<lambda>_. b') (budgets s))
                \<and> evs
                  = alert_events L (transactions s) (categories s) u
                      (alerted_budgets L (transactions s) user_id (bd_month data)
                         (bd_year data)
                         (update_first (\<lambda>b. b_id b = budget_id \<and> b_user_id b = user_id)
                            (\<lambda>_. b') (budgets s)))
                \<and> (\<exists>st. compute_budget_status L (transactions s) b' = Inr st
                         \<and> r = Inr (b'\<lparr>b_alert_sent :=
                                          budget_over_limit L (transactions s) b'\<rparr>, st))
            | Inl e \<Rightarrow>
                budgets s'
                  = update_first (\<lambda>b. b_id b = budget_id \<and> b_user_id b = user_id)
                      (\<lambda>_. b') (budgets s)
                \<and> evs = [] \<and> r = Inl e)"
proof -
  let ?P = "\<lambda>b. b_id b = budget_id \<and> b_user_id b = user_id"
  let ?nm = "bd_month data"
  let ?ny = "bd_year data"
  define s1 where "s1 = s\<lparr>budgets := update_first ?P (\<lambda>_. b') (budgets s)\<rparr>"
  have scope': "b_month b' = ?nm" "b_year b' = ?ny"
    by (simp_all add: b')
  have key: "b_id b' = budget_id \<and> b_user_id b' = user_id"
    using find_SomeD [OF found] by (simp add: b')
  have in': "budget_in_scope user_id ?nm ?ny b'"
    using key scope' by (simp add: budget_in_scope_def)
  have mem: "b' \<in> set (budgets s1)"
    using update_first_find [OF found, of "\<lambda>_. b'"] by (simp add: s1_def)
  have f1: "find ?P (budgets s1) = Some b'"
    using update_first_find_Some [OF found, of b'] key by (simp add: s1_def)
  have t1: "transactions s1 = transactions s" by (simp add: s1_def)
  have c1: "categories s1 = categories s" by (simp add: s1_def)
  have bs1: "budgets s1 = update_first ?P (\<lambda>_. b') (budgets s)" by (simp add: s1_def)
  have len1: "length (budgets s1) = length (budgets s)"
    by (simp add: s1_def update_first_length)
  have nth1: "budgets s1 ! i = budgets s ! i"
    if "i < length (budgets s)" "\<not> ?P (budgets s ! i)" for i
    using that by (simp add: s1_def update_first_nth)
  have u1: "get_current_user s1 = Inr u"
    using user by (simp add: s1_def get_current_user_def)
  note cf = evaluate_budgets_for_month_closed_form [OF u1, of L user_id ?nm ?ny]
  have route: "(s', evs, r) =
      (case evaluate_budgets_for_month L s1 user_id ?nm ?ny of
         Inl e \<Rightarrow> (s1, [], Inl e)
       | Inr (s2, evs2) \<Rightarrow>
           (case find ?P (budgets s2) of
              None \<Rightarrow> (s2, evs2, Inl (Abort 404 ''Budget not found''))
            | Some b2 \<Rightarrow>
                (case compute_budget_status L (transactions s2) b2 of
                   Inl e \<Rightarrow> (s2, evs2, Inl e)
                 | Inr st \<Rightarrow> (s2, evs2, Inr (b2, st)))))"
    using upd uid found parsed scope'
    by (auto simp: update_budget_def Let_def b' [symmetric] s1_def
             split: sum.splits option.splits)
  have out: "(s', evs) =
      (case evaluate_budgets_for_month L s1 user_id ?nm ?ny of
         Inl e \<Rightarrow> (s1, [])
       | Inr (s2, evs2) \<Rightarrow> (s2, evs2))"
    using route by (auto split: sum.splits option.splits)
  note ek = evaluate_or_keep [OF u1 out]
  have txs: "transactions s' = transactions s"
    using ek(1) by (simp add: t1)
  have len: "length (budgets s') = length (budgets s)"
    using ek(3) by (simp add: len1)
  have new: "\<forall>i < length (budgets s).
               \<not> ?P (budgets s ! i) \<and> \<not> budget_in_scope user_id ?nm ?ny (budgets s ! i)
               \<longrightarrow> budgets s' ! i = budgets s ! i"
  proof (intro allI impI)
    fix i
    assume i: "i < length (budgets s)"
      and h: "\<not> ?P (budgets s ! i) \<and> \<not> budget_in_scope user_id ?nm ?ny (budgets s ! i)"
    from nth1 [OF i] h have same: "budgets s1 ! i = budgets s ! i" by simp
    from ek(4) [of i] i h same len1 show "budgets s' ! i = budgets s ! i" by simp
  qed
  have old: "\<forall>i < length (budgets s).
               b_id (budgets s ! i) \<noteq> budget_id
               \<and> b_user_id (budgets s ! i) = user_id
               \<and> b_month (budgets s ! i) = b_month b
               \<and> b_year (budgets s ! i) = b_year b
               \<longrightarrow> budgets s' ! i = budgets s ! i"
    using new moved by (auto simp: budget_in_scope_def)
  have scope: "\<forall>e \<in> set evs.
               b_user_id (fst e) = user_id \<and> b_month (fst e) = ?nm \<and> b_year (fst e) = ?ny"
    using ek(5) by (simp add: budget_in_scope_def)
  have closed: "case get_month_bounds ?ny ?nm of
              Inr w \<Rightarrow>
                budgets s'
                  = evaluated_budgets L (transactions s) user_id ?nm ?ny
                      (update_first ?P (\<lambda>_. b') (budgets s))
                \<and> evs
                  = alert_events L (transactions s) (categories s) u
                      (alerted_budgets L (transactions s) user_id ?nm ?ny
                         (update_first ?P (\<lambda>_. b') (budgets s)))
                \<and> (\<exists>st. compute_budget_status L (transactions s) b' = Inr st
                         \<and> r = Inr (b'\<lparr>b_alert_sent :=
                                          budget_over_limit L (transactions s) b'\<rparr>, st))
            | Inl e \<Rightarrow>
                budgets s' = update_first ?P (\<lambda>_. b') (budgets s)
                \<and> evs = [] \<and> r = Inl e"
  proof (cases "get_month_bounds ?ny ?nm")
    case (Inr w)
    let ?b2 = "b'\<lparr>b_alert_sent := budget_over_limit L (transactions s) b'\<rparr>"
    have ev: "evaluate_budgets_for_month L s1 user_id ?nm ?ny
        = Inr (s1\<lparr>budgets := evaluated_budgets L (transactions s) user_id ?nm ?ny
                                 (budgets s1)\<rparr>,
               alert_events L (transactions s) (categories s) u
                 (alerted_budgets L (transactions s) user_id ?nm ?ny (budgets s1)))"
      using cf Inr by (simp add: t1 c1)
    have f2: "find ?P (evaluated_budgets L (transactions s) user_id ?nm ?ny (budgets s1))
                = Some ?b2"
      using f1 in' by (simp add: evaluated_budgets_find)
    obtain st where st: "compute_budget_status L (transactions s) b' = Inr st"
      using Inr scope'
      by (auto simp: compute_budget_status_def get_expense_total_def Let_def)
    have st2: "compute_budget_status L (transactions s) ?b2 = Inr st"
      using st by (simp add: compute_budget_status_alert_sent)
    from route ev f2 st2 have r: "r = Inr (?b2, st)"
      by (simp add: t1)
    from ek(6) [OF Inr] st r Inr show ?thesis
      by (simp add: t1 c1 bs1)
  next
    case (Inl e)
    have ex: "\<exists>b \<in> set (budgets s1). budget_in_scope user_id ?nm ?ny b"
      using mem in' by blast
    from cf Inl ex have "evaluate_budgets_for_month L s1 user_id ?nm ?ny = Inl e"
      by simp
    with route have "s' = s1" "evs = []" "r = Inl e" by simp_all
    with Inl show ?thesis by (simp add: bs1)
  qed
  show ?thesis
    by (intro conjI txs len old new scope closed)
qed

theorem update_budget_evaluates_new_scope_only_witness:
  "map b_alert_sent (budgets example_store_evaluated) = [True, False, True]
   \<and> map b_month (budgets example_store_evaluated) = [6, 6, 7]
   \<and> map b_alert_sent (budgets (fst
       (update_budget example_lib example_store_evaluated 2 (Some example_budget_payload))))
     = [True, False, False]
   \<and> map b_month (budgets (fst
       (update_budget example_lib example_store_evaluated 2 (Some example_budget_payload))))
     = [6, 7, 7]
   \<and> budgets (fst
       (update_budget example_lib example_store_evaluated 2 (Some example_budget_payload))) ! 0
     = budgets example_store_evaluated ! 0
   \<and> budget_over_limit example_lib (transactions example_store_evaluated)
       (budgets example_store_evaluated ! 0)
   \<and> fst (snd
       (update_budget example_lib example_store_evaluated 2 (Some example_budget_payload)))
     = []
   \<and> snd (snd
       (update_budget example_lib example_store_evaluated 2 (Some example_budget_payload)))
     = Inr (\<lparr>b_id = 2, b_user_id = 1, b_category_id = None, b_month = 7, b_year = 2024,
             b_limit_amount = 11000, b_alert_sent = False\<rparr>,
            \<lparr>spent = 0, remaining = 11000\<rparr>)"
proof -
  obtain s' evs r where upd:
    "update_budget example_lib example_store_evaluated 2 (Some example_budget_payload)
       = (s', evs, r)"
    by (rule prod_cases3)
  have user: "get_current_user example_store_evaluated
                = Inr \<lparr>u_id = 1, u_email = ''demo@example.com''\<rparr>"
    by code_simp
  have uid: "get_current_user_id example_store_evaluated = Inr 1"
    by code_simp
  have found: "find (\<lambda>b. b_id b = 2 \<and> b_user_id b = 1) (budgets example_store_evaluated)
                 = Some (budgets example_store_evaluated ! 1)"
    by code_simp
  have parsed: "parse_budget_payload example_lib (Some example_budget_payload)
      = Inr \<lparr>bd_month = 7, bd_year = 2024, bd_limit_amount = 11000, bd_category_id = None\<rparr>"
    by code_simp
  have b1: "b_month (budgets example_store_evaluated ! 1) = 6"
    "b_year (budgets example_store_evaluated ! 1) = 2024"
    by code_simp+
  have moved: "bd_month \<lparr>bd_month = 7, bd_year = 2024, bd_limit_amount = 11000,
                          bd_category_id = None\<rparr>
                 \<noteq> b_month (budgets example_store_evaluated ! 1)
               \<or> bd_year \<lparr>bd_month = 7, bd_year = 2024, bd_limit_amount = 11000,
                          bd_category_id = None\<rparr>
                 \<noteq> b_year (budgets example_store_evaluated ! 1)"
    using b1 by simp
  have bounds: "get_month_bounds 2024 7 = Inr (Date 2024 7 1, Date 2024 8 1)"
    by code_simp
  have moved_row: "(budgets example_store_evaluated ! 1)
        \<lparr>b_month := 7, b_year := 2024, b_limit_amount := 11000, b_category_id := None\<rparr>
      = \<lparr>b_id = 2, b_user_id = 1, b_category_id = None, b_month = 7, b_year = 2024,
         b_limit_amount = 11000, b_alert_sent = False\<rparr>"
    by code_simp
  have table: "update_first (\<lambda>b. b_id b = 2 \<and> b_user_id b = 1)
        (\<lambda>_. \<lparr>b_id = 2, b_user_id = 1, b_category_id = None, b_month = 7, b_year = 2024,
               b_limit_amount = 11000, b_alert_sent = False\<rparr>)
        (budgets example_store_evaluated)
      = example_moved_budgets"
    by code_simp
  have flags0: "map b_alert_sent (budgets example_store_evaluated) = [True, False, True]"
    "map b_month (budgets example_store_evaluated) = [6, 6, 7]"
    by code_simp+
  have flags: "map b_alert_sent
        (evaluated_budgets example_lib (transactions example_store_evaluated) 1 7 2024
           example_moved_budgets)
      = [True, False, False]"
    "map b_month
        (evaluated_budgets example_lib (transactions example_store_evaluated) 1 7 2024
           example_moved_budgets)
      = [6, 7, 7]"
    by code_simp+
  have first: "evaluated_budgets example_lib (transactions example_store_evaluated) 1 7 2024
           example_moved_budgets ! 0
      = budgets example_store_evaluated ! 0"
    by code_simp
  have over: "budget_over_limit example_lib (transactions example_store_evaluated)
                (budgets example_store_evaluated ! 0)"
    by code_simp
  have alerts: "alert_events example_lib (transactions example_store_evaluated)
           (categories example_store_evaluated)
           \<lparr>u_id = 1, u_email = ''demo@example.com''\<rparr>
           (alerted_budgets example_lib (transactions example_store_evaluated) 1 7 2024
              example_moved_budgets)
      = []"
    by code_simp
  have status: "compute_budget_status example_lib (transactions example_store_evaluated)
        \<lparr>b_id = 2, b_user_id = 1, b_category_id = None, b_month = 7, b_year = 2024,
         b_limit_amount = 11000, b_alert_sent = False\<rparr>
      = Inr \<lparr>spent = 0, remaining = 11000\<rparr>"
    by code_simp
  have flag: "\<not> budget_over_limit example_lib (transactions example_store_evaluated)
        \<lparr>b_id = 2, b_user_id = 1, b_category_id = None, b_month = 7, b_year = 2024,
         b_limit_amount = 11000, b_alert_sent = False\<rparr>"
    by code_simp
  note th = update_budget_evaluates_new_scope_only
              [OF upd user uid found parsed moved refl]
  from th have closed:
    "budgets s' = evaluated_budgets example_lib (transactions example_store_evaluated)
                    1 7 2024 example_moved_budgets
     \<and> evs = []
     \<and> r = Inr (\<lparr>b_id = 2, b_user_id = 1, b_category_id = None, b_month = 7, b_year = 2024,
                  b_limit_amount = 11000, b_alert_sent = False\<rparr>,
                 \<lparr>spent = 0, remaining = 11000\<rparr>)"
    using bounds moved_row table alerts status flag by simp
  show ?thesis
    using upd closed flags0 flags first over by simp
qed

text \<open>
  The answer 404 of \<open>update_budget\<close> has one cause, the lookup of the budget before
  the update: the evaluation keeps the keys of the rows, and its own failures are other
  errors.
\<close>

lemma evaluate_loop_find:
  "evaluate_loop L s u uid m y bs = Inr (bs', evs) \<Longrightarrow>
   find (\<lambda>b. b_id b = k \<and> b_user_id b = v) bs \<noteq> None \<Longrightarrow>
   find (\<lambda>b. b_id b = k \<and> b_user_id b = v) bs' \<noteq> None"
proof (induction bs arbitrary: bs' evs)
  case Nil
  then show ?case by simp
next
  case (Cons b bs)
  then show ?case
    by (auto split: if_splits sum.splits prod.splits simp: Let_def)
qed

lemma get_month_bounds_error: "get_month_bounds y m = Inl e \<Longrightarrow> e = ValueError"
  by (auto simp: get_month_bounds_def py_date_def split: sum.splits if_splits)

lemma compute_budget_status_error:
  "compute_budget_status L txs b = Inl e \<Longrightarrow> e = ValueError"
  by (auto simp: compute_budget_status_def get_expense_total_def Let_def
           split: sum.splits dest: get_month_bounds_error)

lemma evaluate_budgets_for_month_error:
  "evaluate_budgets_for_month L s uid m y = Inl e \<Longrightarrow> get_current_user s = Inr u
   \<Longrightarrow> e = ValueError"
  by (auto simp: evaluate_budgets_for_month_def split: sum.splits prod.splits
           dest!: evaluate_loop_error get_month_bounds_error)

lemma parse_budget_payload_error:
  "parse_budget_payload L payload = Inl e \<Longrightarrow> \<exists>d. e = Abort 400 d"
  by (auto simp: parse_budget_payload_def split: option.splits if_splits)

lemma update_budget_not_found:
  assumes upd: "update_budget L s budget_id payload = (s', evs, Inl (Abort 404 d))"
    and uid: "get_current_user_id s = Inr user_id"
  shows "find (\<lambda>b. b_id b = budget_id \<and> b_user_id b = user_id) (budgets s) = None"
proof (rule ccontr)
  assume "find (\<lambda>b. b_id b = budget_id \<and> b_user_id b = user_id) (budgets s) \<noteq> None"
  then obtain b where
    found: "find (\<lambda>b. b_id b = budget_id \<and> b_user_id b = user_id) (budgets s) = Some b"
    by blast
  from uid obtain u where u: "get_current_user s = Inr u"
    by (auto simp: get_current_user_id_def split: sum.splits)
  show False
  proof (cases "parse_budget_payload L payload")
    case (Inl e)
    with parse_budget_payload_error [OF Inl] upd uid found show False
      by (auto simp: update_budget_def)
  next
    case (Inr data)
    define b' where "b' = b\<lparr>b_month := bd_month data, b_year := bd_year data,
                          b_limit_amount := bd_limit_amount data,
                          b_category_id := bd_category_id data\<rparr>"
    define s1 where "s1 = s\<lparr>budgets :=
                            update_first (\<lambda>b. b_id b = budget_id \<and> b_user_id b = user_id)
                              (\<lambda>_. b') (budgets s)\<rparr>"
    have key: "b_id b' = budget_id \<and> b_user_id b' = user_id"
      using find_SomeD [OF found] by (simp add: b'_def)
    have f1: "find (\<lambda>b. b_id b = budget_id \<and> b_user_id b = user_id) (budgets s1) = Some b'"
      using update_first_find_Some [OF found, of b'] key by (simp add: s1_def)
    have u1: "get_current_user s1 = Inr u"
      using u by (simp add: s1_def get_current_user_def)
    show False
    proof (cases "evaluate_budgets_for_month L s1 user_id (bd_month data) (bd_year data)")
      case (Inl e)
      from evaluate_budgets_for_month_error [OF Inl u1] have "e = ValueError" .
      with Inl \<open>parse_budget_payload L payload = Inr data\<close> upd uid found show False
        by (simp add: update_budget_def Let_def b'_def s1_def)
    next
      case (Inr res)
      obtain s2 evs2 where res: "res = (s2, evs2)" by (cases res)
      from Inr res obtain bs' where
        loop: "evaluate_loop L s1 u user_id (bd_month data) (bd_year data) (budgets s1)
                 = Inr (bs', evs2)"
        and s2: "s2 = s1\<lparr>budgets := bs'\<rparr>"
        using u1 by (auto simp: evaluate_budgets_for_month_def split: sum.splits prod.splits)
      from evaluate_loop_find [OF loop, of budget_id user_id] f1
      obtain b2 where
        f2: "find (\<lambda>b. b_id b = budget_id \<and> b_user_id b = user_id) (budgets s2) = Some b2"
        by (auto simp: s2)
      show False
      proof (cases "compute_budget_status L (transactions s2) b2")
        case (Inl e)
        from compute_budget_status_error [OF Inl] have "e = ValueError" .
        with Inl Inr res f2 \<open>parse_budget_payload L payload = Inr data\<close> upd uid found
        show False
          by (simp add: update_budget_def Let_def b'_def s1_def)
      next
        case st: (Inr st)
        with Inr res f2 \<open>parse_budget_payload L payload = Inr data\<close> upd uid found
        show False
          by (simp add: update_budget_def Let_def b'_def s1_def)
      qed
    qed
  qed
qed

section \<open>The monthly summary\<close>

text \<open>
  C8. \<open>monthly_summary\<close> is read-only: whatever the store and the query arguments, and
  whether it returns a report or an error, the store after the request is the store
  before it, so every transaction, budget (with its \<open>alert_sent\<close> flag) and category is
  unchanged.
\<close>

theorem monthly_summary_read_only:
  "fst (monthly_summary L s month_arg year_arg) = s"
  by (simp add: monthly_summary_def Let_def split: sum.splits)

theorem monthly_summary_read_only_witness:
  "fst (monthly_summary example_lib example_store_evaluated (Some 6) (Some 2024))
     = example_store_evaluated
   \<and> isl (snd (monthly_summary example_lib example_store_evaluated (Some 6) (Some 2024))) = False"
proof -
  have "isl (snd (monthly_summary example_lib example_store_evaluated (Some 6) (Some 2024)))
          = False"
    by code_simp
  with monthly_summary_read_only [of example_lib example_store_evaluated "Some 6" "Some 2024"]
  show ?thesis by simp
qed

lemma category_rows_length:
  "length (category_rows L s user_id w)
     = length (filter (\<lambda>c. c_user_id c = Some user_id) (categories s))"
  by (simp add: category_rows_def)

lemma category_rows_entry:
  assumes "c \<in> set (categories s)" and "c_user_id c = Some user_id"
  shows "\<exists>row \<in> set (category_rows L s user_id w).
           row_category_id row = c_id c \<and> row_category_name row = c_name c
           \<and> row_type row = c_type c
           \<and> row_total row = float_of L (sum_list (map tx_amount
               (filter (\<lambda>t. tx_category_id t = Some (c_id c) \<and> tx_user_id t = user_id
                            \<and> in_window w (tx_transaction_date t)) (transactions s))))"
proof -
  define row where "row = \<lparr>row_category_id = c_id c, row_category_name = c_name c,
      row_type = c_type c,
      row_total = float_of L (sum_list (map tx_amount
               (filter (\<lambda>t. tx_category_id t = Some (c_id c) \<and> tx_user_id t = user_id
                            \<and> in_window w (tx_transaction_date t)) (transactions s))))\<rparr>"
  have "row \<in> set (category_rows L s user_id w)"
    using assms unfolding category_rows_def row_def by (simp add: image_iff) blast
  then show ?thesis
    by (rule bexI [rotated]) (simp add: row_def)
qed

lemma monthly_summary_by_category:
  assumes "monthly_summary L s month_arg year_arg = (s', Inr rep)"
    and "get_current_user_id s = Inr user_id"
  shows "\<exists>w. get_month_bounds (or_default year_arg (date_year (today L)))
                (or_default month_arg (date_month (today L))) = Inr w
             \<and> sm_by_category rep = category_rows L s user_id w"
  using assms
  by (auto simp: monthly_summary_def Let_def split: sum.splits)

text \<open>
  C6. In a report of \<open>monthly_summary\<close> the breakdown \<open>by_category\<close> has as many entries as
  the user owns categories, and for every category the user owns it has an entry with the
  identifier, name and type of that category; when no transaction of the user in the
  month window has that category, the total of the entry is \<open>float(0)\<close>.
\<close>

theorem monthly_summary_lists_every_category:
  assumes rep: "monthly_summary L s month_arg year_arg = (s', Inr rep)"
    and uid: "get_current_user_id s = Inr user_id"
  shows "\<exists>w. get_month_bounds (or_default year_arg (date_year (today L)))
                (or_default month_arg (date_month (today L))) = Inr w
           \<and> length (sm_by_category rep)
               = length (filter (\<lambda>c. c_user_id c = Some user_id) (categories s))
           \<and> (\<forall>c \<in> set (categories s). c_user_id c = Some user_id \<longrightarrow>
                 (\<exists>row \<in> set (sm_by_category rep).
                    row_category_id row = c_id c \<and> row_category_name row = c_name c
                    \<and> row_type row = c_type c
                    \<and> ((\<forall>t \<in> set (transactions s).
                           \<not> (tx_category_id t = Some (c_id c) \<and> tx_user_id t = user_id
                              \<and> in_window w (tx_transaction_date t)))
                        \<longrightarrow> row_total row = float_of L 0)))"
proof -
  from monthly_summary_by_category [OF rep uid] obtain w where
    w: "get_month_bounds (or_default year_arg (date_year (today L)))
          (or_default month_arg (date_month (today L))) = Inr w"
    and rows: "sm_by_category rep = category_rows L s user_id w"
    by blast
  have "\<exists>row \<in> set (category_rows L s user_id w).
          row_category_id row = c_id c \<and> row_category_name row = c_name c
          \<and> row_type row = c_type c
          \<and> ((\<forall>t \<in> set (transactions s).
                 \<not> (tx_category_id t = Some (c_id c) \<and> tx_user_id t = user_id
                    \<and> in_window w (tx_transaction_date t)))
              \<longrightarrow> row_total row = float_of L 0)"
    if c: "c \<in> set (categories s)" "c_user_id c = Some user_id" for c
  proof -
    from category_rows_entry [OF c, of L w] obtain row where
      row: "row \<in> set (category_rows L s user_id w)"
        "row_category_id row = c_id c" "row_category_name row = c_name c"
        "row_type row = c_type c"
        "row_total row = float_of L (sum_list (map tx_amount
               (filter (\<lambda>t. tx_category_id t = Some (c_id c) \<and> tx_user_id t = user_id
                            \<and> in_window w (tx_transaction_date t)) (transactions s))))"
      by blast
    have "row_total row = float_of L 0"
      if "\<forall>t \<in> set (transactions s).
             \<not> (tx_category_id t = Some (c_id c) \<and> tx_user_id t = user_id
                \<and> in_window w (tx_transaction_date t))"
    proof -
      from that have "filter (\<lambda>t. tx_category_id t = Some (c_id c) \<and> tx_user_id t = user_id
                            \<and> in_window w (tx_transaction_date t)) (transactions s) = []"
        by (simp add: filter_empty_conv)
      then show ?thesis by (simp add: row(5))
    qed
    with row show ?thesis by blast
  qed
  with w rows category_rows_length [of L s user_id w] show ?thesis
    by (intro exI [of _ w]) simp
qed

theorem monthly_summary_lists_every_category_witness:
  "map row_category_id (sm_by_category (projr (snd
      (monthly_summary example_lib example_store (Some 6) (Some 2024))))) = [1, 2]
   \<and> map row_total (sm_by_category (projr (snd
      (monthly_summary example_lib example_store (Some 6) (Some 2024))))) = [11000, 0]
   \<and> (\<exists>w. get_month_bounds 2024 6 = Inr w
        \<and> length (sm_by_category (projr (snd
            (monthly_summary example_lib example_store (Some 6) (Some 2024))))) = 2)"
proof -
  obtain rep where rep: "monthly_summary example_lib example_store (Some 6) (Some 2024)
                           = (example_store, Inr rep)"
    and ids: "map row_category_id (sm_by_category rep) = [1, 2]"
    and tot: "map row_total (sm_by_category rep) = [11000, 0]"
  proof -
    have "isl (snd (monthly_summary example_lib example_store (Some 6) (Some 2024))) = False"
      "fst (monthly_summary example_lib example_store (Some 6) (Some 2024)) = example_store"
      "map row_category_id (sm_by_category (projr (snd
          (monthly_summary example_lib example_store (Some 6) (Some 2024))))) = [1, 2]"
      "map row_total (sm_by_category (projr (snd
          (monthly_summary example_lib example_store (Some 6) (Some 2024))))) = [11000, 0]"
      by code_simp+
    then show ?thesis
      by (intro that [of "projr (snd
          (monthly_summary example_lib example_store (Some 6) (Some 2024)))"])
         (simp_all add: prod_eq_iff)
  qed
  have uid: "get_current_user_id example_store = Inr 1"
    by code_simp
  have owned: "length (filter (\<lambda>c. c_user_id c = Some 1) (categories example_store)) = 2"
    by code_simp
  have args: "or_default (Some 2024) (date_year (today example_lib)) = 2024"
    "or_default (Some 6) (date_month (today example_lib)) = 6"
    by code_simp+
  from monthly_summary_lists_every_category [OF rep uid]
  have "\<exists>w. get_month_bounds 2024 6 = Inr w \<and> length (sm_by_category rep) = 2"
    unfolding args owned by blast
  with rep ids tot show ?thesis by simp
qed

section \<open>Validation of the amount\<close>













section \<open>Decimal sums and binary floats\<close>










end
